theory Spec2Isabelle
  imports Main "HOL-Library.AList" "HOL-Library.Sublist"
begin

section \<open>Values, records and exceptions\<close>

text \<open>
  Python's \<open>Any\<close>, as far as JSON produces it. A \<open>dict[str, Any]\<close> is an association
  list; \<open>map_of\<close> reads a key.
\<close>

datatype pyval =
    PNone
  | PBool bool
  | PInt int
  | PStr string
  | PList "pyval list"
  | PDict "(string \<times> pyval) list"

type_synonym sf_record = "(string \<times> pyval) list"

text \<open>
  A raised exception, with its \<open>str()\<close>. \<open>Exception\<close> stands for every instance of
  Python's class \<open>Exception\<close>; \<open>NonException\<close> for the instances of \<open>BaseException\<close>
  that are not (\<open>KeyboardInterrupt\<close>, \<open>SystemExit\<close>), which \<open>except Exception\<close> lets
  through.
\<close>

datatype exn = Exception string | NonException string

fun is_Exception :: "exn \<Rightarrow> bool" where
  "is_Exception (Exception m) = True"
| "is_Exception (NonException m) = False"

fun str :: "exn \<Rightarrow> string" where
  "str (Exception m) = m"
| "str (NonException m) = m"

section \<open>The process state and the external collaborators\<close>

text \<open>
  \<open>sf_client\<close> is the module's global of that name (\<open>None\<close> is Python's \<open>None\<close>),
  \<open>stdout\<close> the lines printed so far, \<open>world\<close> everything outside the module: the
  environment variables, the client objects' own fields and the remote CRM.
  A client object is a reference of type \<open>'c\<close>.
\<close>

record ('c, 'w) process =
  sf_client :: "'c option"
  stdout :: "string list"
  world :: "'w"

text \<open>
  \<open>client.py\<close> and the \<open>openmcp\<close> server are imported by \<open>main.py\<close> and are not part
  of it: the constructor \<open>SalesforceClient(auto_auth=...)\<close>, the eight methods that the
  tools call and \<open>server.serve\<close> are parameters. Each one may change the world and
  either returns a value or raises. So is the encoding of \<open>sys.stdout\<close>:
  \<open>encode_error line\<close> is \<open>None\<close> when the encoding has every character of the line,
  and otherwise the \<open>str()\<close> of the \<open>UnicodeEncodeError\<close> that writing the line raises.
\<close>

record ('c, 'w) externals =
  SalesforceClient :: "bool \<Rightarrow> 'w \<Rightarrow> (exn + 'c) \<times> 'w"
  cl_get_accounts :: "'c \<Rightarrow> int \<Rightarrow> string list option \<Rightarrow> 'w \<Rightarrow> (exn + sf_record list) \<times> 'w"
  cl_get_account_by_id :: "'c \<Rightarrow> string \<Rightarrow> string list option \<Rightarrow> 'w \<Rightarrow> (exn + sf_record) \<times> 'w"
  cl_search_accounts :: "'c \<Rightarrow> string \<Rightarrow> int \<Rightarrow> 'w \<Rightarrow> (exn + sf_record list) \<times> 'w"
  cl_create_account :: "'c \<Rightarrow> sf_record \<Rightarrow> 'w \<Rightarrow> (exn + string) \<times> 'w"
  cl_update_account :: "'c \<Rightarrow> string \<Rightarrow> sf_record \<Rightarrow> 'w \<Rightarrow> (exn + pyval) \<times> 'w"
  cl_delete_account :: "'c \<Rightarrow> string \<Rightarrow> 'w \<Rightarrow> (exn + pyval) \<times> 'w"
  cl_get_account_opportunities :: "'c \<Rightarrow> string \<Rightarrow> int \<Rightarrow> 'w \<Rightarrow> (exn + sf_record list) \<times> 'w"
  cl_get_account_contacts :: "'c \<Rightarrow> string \<Rightarrow> int \<Rightarrow> 'w \<Rightarrow> (exn + sf_record list) \<times> 'w"
  server_serve :: "string \<Rightarrow> bool \<Rightarrow> string \<Rightarrow> ('c, 'w) process \<Rightarrow> (exn + unit) \<times> ('c, 'w) process"
  encode_error :: "string \<Rightarrow> string option"

text \<open>A call of an external method from the process: only the world changes.\<close>

definition call :: "('w \<Rightarrow> (exn + 'a) \<times> 'w) \<Rightarrow> ('c, 'w) process \<Rightarrow> (exn + 'a) \<times> ('c, 'w) process" where
  "call m s = (case m (world s) of (r, w') \<Rightarrow> (r, s\<lparr>world := w'\<rparr>))"

text \<open>A parameter with a default value: \<open>None\<close> is the argument left out.\<close>

fun default :: "'a \<Rightarrow> 'a option \<Rightarrow> 'a" where
  "default d None = d"
| "default d (Some v) = v"

section \<open>main.py\<close>

text \<open>
  \<^verbatim>\<open>
  def get_client():
      global sf_client
      if sf_client is None:
          sf_client = SalesforceClient(auto_auth=True)
      return sf_client
  \<close>
  The assignment happens only when the constructor returns.
\<close>

definition get_client :: "('c, 'w) externals \<Rightarrow> ('c, 'w) process \<Rightarrow> (exn + 'c) \<times> ('c, 'w) process" where
  "get_client ext s =
     (case sf_client s of
        None \<Rightarrow>
          (case SalesforceClient ext True (world s) of
             (Inl e, w') \<Rightarrow> (Inl e, s\<lparr>world := w'\<rparr>)
           | (Inr c, w') \<Rightarrow> (Inr c, s\<lparr>sf_client := Some c, world := w'\<rparr>))
      | Some c \<Rightarrow> (Inr c, s))"

text \<open>
  Every tool starts with \<open>client = get_client()\<close>; an exception raised there leaves
  the tool at once.
\<close>

definition with_client ::
  "('c, 'w) externals \<Rightarrow> ('c \<Rightarrow> ('c, 'w) process \<Rightarrow> (exn + 'a) \<times> ('c, 'w) process) \<Rightarrow>
   ('c, 'w) process \<Rightarrow> (exn + 'a) \<times> ('c, 'w) process" where
  "with_client ext body s =
     (case get_client ext s of
        (Inl e, s') \<Rightarrow> (Inl e, s')
      | (Inr client, s') \<Rightarrow> body client s')"

definition get_accounts ::
  "('c, 'w) externals \<Rightarrow> int option \<Rightarrow> string list option option \<Rightarrow>
   ('c, 'w) process \<Rightarrow> (exn + sf_record list) \<times> ('c, 'w) process" where
  "get_accounts ext limit_arg fields_arg s =
     (let limit = default 10 limit_arg; fields = default None fields_arg
      in with_client ext (\<lambda>client. call (cl_get_accounts ext client limit fields)) s)"

definition get_account_by_id ::
  "('c, 'w) externals \<Rightarrow> string \<Rightarrow> string list option option \<Rightarrow>
   ('c, 'w) process \<Rightarrow> (exn + sf_record) \<times> ('c, 'w) process" where
  "get_account_by_id ext account_id fields_arg s =
     (let fields = default None fields_arg
      in with_client ext (\<lambda>client. call (cl_get_account_by_id ext client account_id fields)) s)"

definition search_accounts ::
  "('c, 'w) externals \<Rightarrow> string \<Rightarrow> int option \<Rightarrow>
   ('c, 'w) process \<Rightarrow> (exn + sf_record list) \<times> ('c, 'w) process" where
  "search_accounts ext search_term limit_arg s =
     (let limit = default 10 limit_arg
      in with_client ext (\<lambda>client. call (cl_search_accounts ext client search_term limit)) s)"

definition create_account ::
  "('c, 'w) externals \<Rightarrow> sf_record \<Rightarrow> ('c, 'w) process \<Rightarrow> (exn + string) \<times> ('c, 'w) process" where
  "create_account ext account_data s =
     with_client ext (\<lambda>client. call (cl_create_account ext client account_data)) s"

text \<open>
  \<^verbatim>\<open>
  client = get_client()
  client.update_account(account_id, account_data)
  return True
  \<close>
  What the method returns is dropped.
\<close>

definition update_account ::
  "('c, 'w) externals \<Rightarrow> string \<Rightarrow> sf_record \<Rightarrow> ('c, 'w) process \<Rightarrow> (exn + bool) \<times> ('c, 'w) process" where
  "update_account ext account_id account_data s =
     with_client ext (\<lambda>client s'.
       case call (cl_update_account ext client account_id account_data) s' of
         (Inl e, s'') \<Rightarrow> (Inl e, s'')
       | (Inr _, s'') \<Rightarrow> (Inr True, s'')) s"

definition delete_account ::
  "('c, 'w) externals \<Rightarrow> string \<Rightarrow> ('c, 'w) process \<Rightarrow> (exn + bool) \<times> ('c, 'w) process" where
  "delete_account ext account_id s =
     with_client ext (\<lambda>client s'.
       case call (cl_delete_account ext client account_id) s' of
         (Inl e, s'') \<Rightarrow> (Inl e, s'')
       | (Inr _, s'') \<Rightarrow> (Inr True, s'')) s"

definition get_account_opportunities ::
  "('c, 'w) externals \<Rightarrow> string \<Rightarrow> int option \<Rightarrow>
   ('c, 'w) process \<Rightarrow> (exn + sf_record list) \<times> ('c, 'w) process" where
  "get_account_opportunities ext account_id limit_arg s =
     (let limit = default 10 limit_arg
      in with_client ext (\<lambda>client. call (cl_get_account_opportunities ext client account_id limit)) s)"

definition get_account_contacts ::
  "('c, 'w) externals \<Rightarrow> string \<Rightarrow> int option \<Rightarrow>
   ('c, 'w) process \<Rightarrow> (exn + sf_record list) \<times> ('c, 'w) process" where
  "get_account_contacts ext account_id limit_arg s =
     (let limit = default 10 limit_arg
      in with_client ext (\<lambda>client. call (cl_get_account_contacts ext client account_id limit)) s)"

subsection \<open>Start-up\<close>

text \<open>
  One statement after another: an exception raised by the first leaves the sequence.
\<close>

definition and_then ::
  "(exn + 'a) \<times> 's \<Rightarrow> ('s \<Rightarrow> (exn + 'b) \<times> 's) \<Rightarrow> (exn + 'b) \<times> 's" where
  "and_then p k = (case p of (Inl e, s) \<Rightarrow> (Inl e, s) | (Inr v, s) \<Rightarrow> k s)"

text \<open>
  \<open>print(line)\<close> writes the line and a newline to standard output. When the encoding of
  standard output does not have a character of the line, the write raises
  \<open>UnicodeEncodeError\<close>, an \<open>Exception\<close>, and nothing is written. \<open>print()\<close> writes the
  newline alone, which every encoding has. The emoji are their UTF-8 bytes.
\<close>

definition print ::
  "('c, 'w) externals \<Rightarrow> string \<Rightarrow> ('c, 'w) process \<Rightarrow> (exn + unit) \<times> ('c, 'w) process" where
  "print ext line s =
     (case (if line = [] then None else encode_error ext line) of
        None \<Rightarrow> (Inr (), s\<lparr>stdout := stdout s @ [line]\<rparr>)
      | Some m \<Rightarrow> (Inl (Exception m), s))"

definition rocket :: string where
  "rocket = [CHR 0xF0, CHR 0x9F, CHR 0x9A, CHR 0x80]"

definition antenna :: string where
  "antenna = [CHR 0xF0, CHR 0x9F, CHR 0x93, CHR 0xA1]"

definition wrench :: string where
  "wrench = [CHR 0xF0, CHR 0x9F, CHR 0x94, CHR 0xA7]"

definition check_mark :: string where
  "check_mark = [CHR 0xE2, CHR 0x9C, CHR 0x85]"

definition warning_sign :: string where
  "warning_sign = [CHR 0xE2, CHR 0x9A, CHR 0xA0, CHR 0xEF, CHR 0xB8, CHR 0x8F]"

text \<open>The lines that \<open>main\<close> prints, in the order of the source.\<close>

definition starting_line :: string where
  "starting_line = rocket @ '' Starting Salesforce MCP Server...''"

definition transport_line :: string where
  "transport_line = antenna @ '' Transport: streamable-http''"

definition tools_line :: string where
  "tools_line =
     wrench @ '' Available tools: get_accounts, get_account_by_id, search_accounts, create_account,''"

definition more_tools_line :: string where
  "more_tools_line =
     ''                   update_account, delete_account, get_account_opportunities, get_account_contacts''"

definition initialized_line :: string where
  "initialized_line = check_mark @ '' Salesforce client initialized successfully''"

definition warning_line :: "exn \<Rightarrow> string" where
  "warning_line e = warning_sign @ ''  Warning: Failed to initialize Salesforce client: '' @ str e"

definition server_will_start_line :: string where
  "server_will_start_line =
     ''   Server will start but tools may fail until client is configured properly''"

text \<open>The four \<open>print\<close> calls and the \<open>print()\<close> that open \<open>main\<close>, outside the \<open>try\<close>.\<close>

definition banner :: "('c, 'w) externals \<Rightarrow> ('c, 'w) process \<Rightarrow> (exn + unit) \<times> ('c, 'w) process" where
  "banner ext s =
     and_then (print ext starting_line s) (\<lambda>s.
     and_then (print ext transport_line s) (\<lambda>s.
     and_then (print ext tools_line s) (\<lambda>s.
     and_then (print ext more_tools_line s) (print ext []))))"

text \<open>The \<open>print()\<close> and the \<open>await server.serve(...)\<close> that close \<open>main\<close>.\<close>

definition serve :: "('c, 'w) externals \<Rightarrow> ('c, 'w) process \<Rightarrow> (exn + unit) \<times> ('c, 'w) process" where
  "serve ext s =
     and_then (print ext [] s) (server_serve ext ''streamable-http'' False ''critical'')"

text \<open>
  \<^verbatim>\<open>
  try:
      get_client()
      print("... Salesforce client initialized successfully")
  except Exception as e:
      print(f"...  Warning: Failed to initialize Salesforce client: {e}")
      print("   Server will start but tools may fail until client is configured properly")
  print()
  await server.serve(transport="streamable-http", verbose=False, log_level="critical")
  \<close>
  The \<open>try\<close> covers \<open>get_client()\<close> and the \<open>print\<close> after it. An exception that is not
  an \<open>Exception\<close> leaves \<open>main\<close> before the server starts, and so does an exception
  raised by a \<open>print\<close> outside the \<open>try\<close> or inside the handler.
\<close>

definition main :: "('c, 'w) externals \<Rightarrow> ('c, 'w) process \<Rightarrow> (exn + unit) \<times> ('c, 'w) process" where
  "main ext s =
     and_then (banner ext s) (\<lambda>s.
       case and_then (get_client ext s) (print ext initialized_line) of
         (Inr u, s') \<Rightarrow> serve ext s'
       | (Inl e, s') \<Rightarrow>
           if is_Exception e
           then and_then (print ext (warning_line e) s') (\<lambda>s'.
                and_then (print ext server_will_start_line s') (serve ext))
           else (Inl e, s'))"

subsection \<open>The tool registry\<close>

text \<open>
  The eight functions under \<open>server.binding()\<close> are the tools a caller can name. A
  failed invocation is reported to its caller; the next invocation runs on the state
  the failed one left.
\<close>

datatype tool_call =
    GetAccounts "int option" "string list option option"
  | GetAccountById string "string list option option"
  | SearchAccounts string "int option"
  | CreateAccount sf_record
  | UpdateAccount string sf_record
  | DeleteAccount string
  | GetAccountOpportunities string "int option"
  | GetAccountContacts string "int option"

datatype tool_result =
    Records "sf_record list"
  | Record sf_record
  | Ident string
  | Flag bool

definition returning ::
  "('a \<Rightarrow> tool_result) \<Rightarrow> (exn + 'a) \<times> ('c, 'w) process \<Rightarrow> (exn + tool_result) \<times> ('c, 'w) process" where
  "returning f p = (case p of (r, s) \<Rightarrow> (map_sum id f r, s))"

fun invoke ::
  "('c, 'w) externals \<Rightarrow> tool_call \<Rightarrow> ('c, 'w) process \<Rightarrow> (exn + tool_result) \<times> ('c, 'w) process" where
  "invoke ext (GetAccounts l f) s = returning Records (get_accounts ext l f s)"
| "invoke ext (GetAccountById i f) s = returning Record (get_account_by_id ext i f s)"
| "invoke ext (SearchAccounts t l) s = returning Records (search_accounts ext t l s)"
| "invoke ext (CreateAccount d) s = returning Ident (create_account ext d s)"
| "invoke ext (UpdateAccount i d) s = returning Flag (update_account ext i d s)"
| "invoke ext (DeleteAccount i) s = returning Flag (delete_account ext i s)"
| "invoke ext (GetAccountOpportunities i l) s = returning Records (get_account_opportunities ext i l s)"
| "invoke ext (GetAccountContacts i l) s = returning Records (get_account_contacts ext i l s)"

fun invoke_all ::
  "('c, 'w) externals \<Rightarrow> tool_call list \<Rightarrow> ('c, 'w) process \<Rightarrow>
   (exn + tool_result) list \<times> ('c, 'w) process" where
  "invoke_all ext [] s = ([], s)"
| "invoke_all ext (c # cs) s =
     (case invoke ext c s of (r, s') \<Rightarrow>
        (case invoke_all ext cs s' of (rs, s'') \<Rightarrow> (r # rs, s'')))"

section \<open>The API client and the remote CRM\<close>

text \<open>
  Modelled from the spec: \<open>client.py\<close> (class \<open>SalesforceClient\<close>) and the remote CRM
  that it calls are missing from the sources. The spec gives the client as a black box
  with list, search, get, create, update and delete operations, each one authenticated
  call that returns parsed JSON or raises; all records live in the remote CRM as
  key-value records identified by an opaque \<open>Id\<close> string; missing credentials make
  the initialization fail. The world below holds the remote tables and whether the
  environment has credentials. A client object is the serial number of its
  construction.
\<close>

record crm =
  credentials :: bool
  clients_made :: nat
  created :: nat
  accounts :: "(string \<times> sf_record) list"
  contacts :: "sf_record list"
  opportunities :: "sf_record list"

text \<open>Modelled from the spec: the decimal digits of a serial number, for the identifiers.\<close>

fun digits :: "nat \<Rightarrow> string" where
  "digits n =
     (if n < 10 then [char_of (48 + n)] else digits (n div 10) @ [char_of (48 + n mod 10)])"

text \<open>Modelled from the spec: the opaque \<open>Id\<close> string of the \<open>n\<close>th record created.\<close>

definition new_id :: "nat \<Rightarrow> string" where
  "new_id n = ''001'' @ digits n"

text \<open>Modelled from the spec: the optional list of field names selects the fields returned.\<close>

definition project :: "string list option \<Rightarrow> sf_record \<Rightarrow> sf_record" where
  "project flds r = (case flds of None \<Rightarrow> r | Some fs \<Rightarrow> filter (\<lambda>(k, v). k \<in> set fs) r)"

text \<open>Modelled from the spec: a field matches a search term that its string value contains.\<close>

fun field_contains :: "string \<Rightarrow> string \<times> pyval \<Rightarrow> bool" where
  "field_contains t (k, PStr v) = sublist t v"
| "field_contains t (k, v) = False"

text \<open>Modelled from the spec: a record matches when one of its fields does.\<close>

definition matches :: "string \<Rightarrow> sf_record \<Rightarrow> bool" where
  "matches t r = list_ex (field_contains t) r"

text \<open>Modelled from the spec: the contacts and opportunities of an account name it in \<open>AccountId\<close>.\<close>

definition of_account :: "string \<Rightarrow> sf_record \<Rightarrow> bool" where
  "of_account account_id r = (map_of r ''AccountId'' = Some (PStr account_id))"

text \<open>Modelled from the spec: the error of a call that names a record the CRM does not have.\<close>

definition not_found :: exn where
  "not_found = Exception ''NOT_FOUND''"

text \<open>Modelled from the spec: the error of a call that the CRM does not accept as authenticated.\<close>

definition invalid_session :: exn where
  "invalid_session = Exception ''INVALID_SESSION_ID''"

text \<open>
  Modelled from the spec: every operation is one authenticated call. It raises when the
  credentials have gone since the client was made.
\<close>

definition authenticated :: "(crm \<Rightarrow> (exn + 'a) \<times> crm) \<Rightarrow> crm \<Rightarrow> (exn + 'a) \<times> crm" where
  "authenticated request w = (if credentials w then request w else (Inl invalid_session, w))"

text \<open>
  Modelled from the spec: the constructor of the missing class \<open>SalesforceClient\<close>. With
  \<open>auto_auth\<close> it authenticates from the environment and raises when the credentials
  are missing.
\<close>

definition crm_SalesforceClient :: "bool \<Rightarrow> crm \<Rightarrow> (exn + nat) \<times> crm" where
  "crm_SalesforceClient auto_auth w =
     (if auto_auth \<and> \<not> credentials w
      then (Inl (Exception ''Salesforce credentials are not configured''), w)
      else (Inr (clients_made w), w\<lparr>clients_made := Suc (clients_made w)\<rparr>))"

text \<open>Modelled from the spec: the list operation, the first \<open>limit\<close> accounts.\<close>

definition crm_get_accounts :: "nat \<Rightarrow> int \<Rightarrow> string list option \<Rightarrow> crm \<Rightarrow> (exn + sf_record list) \<times> crm" where
  "crm_get_accounts c limit flds =
     authenticated (\<lambda>w.
       (Inr (take (nat limit) (map (\<lambda>(i, r). project flds r) (accounts w))), w))"

text \<open>Modelled from the spec: the get operation; it raises for an unknown identifier.\<close>

definition crm_get_account_by_id :: "nat \<Rightarrow> string \<Rightarrow> string list option \<Rightarrow> crm \<Rightarrow> (exn + sf_record) \<times> crm" where
  "crm_get_account_by_id c account_id flds =
     authenticated (\<lambda>w.
       (case map_of (accounts w) account_id of
          None \<Rightarrow> (Inl not_found, w)
        | Some r \<Rightarrow> (Inr (project flds r), w)))"

text \<open>Modelled from the spec: the search operation, the first \<open>limit\<close> accounts that match.\<close>

definition crm_search_accounts :: "nat \<Rightarrow> string \<Rightarrow> int \<Rightarrow> crm \<Rightarrow> (exn + sf_record list) \<times> crm" where
  "crm_search_accounts c search_term limit =
     authenticated (\<lambda>w.
       (Inr (take (nat limit) (filter (matches search_term) (map snd (accounts w)))), w))"

text \<open>Modelled from the spec: the create operation; it stores the submitted fields under a new identifier and returns the identifier.\<close>

definition crm_create_account :: "nat \<Rightarrow> sf_record \<Rightarrow> crm \<Rightarrow> (exn + string) \<times> crm" where
  "crm_create_account c account_data =
     authenticated (\<lambda>w.
       (let i = new_id (created w)
        in (Inr i, w\<lparr>created := Suc (created w),
                     accounts := AList.update i account_data (accounts w)\<rparr>)))"

text \<open>Modelled from the spec: the update operation; it overwrites the submitted fields of the record.\<close>

definition crm_update_account :: "nat \<Rightarrow> string \<Rightarrow> sf_record \<Rightarrow> crm \<Rightarrow> (exn + pyval) \<times> crm" where
  "crm_update_account c account_id account_data =
     authenticated (\<lambda>w.
       (case map_of (accounts w) account_id of
          None \<Rightarrow> (Inl not_found, w)
        | Some r \<Rightarrow>
            (Inr PNone,
             w\<lparr>accounts :=
                 AList.update account_id (AList.updates (map fst account_data) (map snd account_data) r)
                   (accounts w)\<rparr>)))"

text \<open>Modelled from the spec: the delete operation; it raises for an unknown identifier.\<close>

definition crm_delete_account :: "nat \<Rightarrow> string \<Rightarrow> crm \<Rightarrow> (exn + pyval) \<times> crm" where
  "crm_delete_account c account_id =
     authenticated (\<lambda>w.
       (case map_of (accounts w) account_id of
          None \<Rightarrow> (Inl not_found, w)
        | Some r \<Rightarrow> (Inr PNone, w\<lparr>accounts := AList.delete account_id (accounts w)\<rparr>)))"

text \<open>Modelled from the spec: the related-record lookup for opportunities.\<close>

definition crm_get_account_opportunities :: "nat \<Rightarrow> string \<Rightarrow> int \<Rightarrow> crm \<Rightarrow> (exn + sf_record list) \<times> crm" where
  "crm_get_account_opportunities c account_id limit =
     authenticated (\<lambda>w.
       (Inr (take (nat limit) (filter (of_account account_id) (opportunities w))), w))"

text \<open>Modelled from the spec: the related-record lookup for contacts.\<close>

definition crm_get_account_contacts :: "nat \<Rightarrow> string \<Rightarrow> int \<Rightarrow> crm \<Rightarrow> (exn + sf_record list) \<times> crm" where
  "crm_get_account_contacts c account_id limit =
     authenticated (\<lambda>w.
       (Inr (take (nat limit) (filter (of_account account_id) (contacts w))), w))"

text \<open>
  Modelled from the spec: the hosting server, which is not part of the sources either.
  Serving returns when the host stops it; the tool calls it receives are those of
  \<open>invoke_all\<close>.
\<close>

definition crm_serve ::
  "string \<Rightarrow> bool \<Rightarrow> string \<Rightarrow> (nat, crm) process \<Rightarrow> (exn + unit) \<times> (nat, crm) process" where
  "crm_serve transport verbose log_level s = (Inr (), s)"

text \<open>
  Modelled from the spec: the missing collaborators together, as \<open>main.py\<close> imports them,
  with a standard output that can encode every line.
\<close>

definition crm_ext :: "(nat, crm) externals" where
  "crm_ext =
     \<lparr>SalesforceClient = crm_SalesforceClient,
      cl_get_accounts = crm_get_accounts,
      cl_get_account_by_id = crm_get_account_by_id,
      cl_search_accounts = crm_search_accounts,
      cl_create_account = crm_create_account,
      cl_update_account = crm_update_account,
      cl_delete_account = crm_delete_account,
      cl_get_account_opportunities = crm_get_account_opportunities,
      cl_get_account_contacts = crm_get_account_contacts,
      server_serve = crm_serve,
      encode_error = (\<lambda>line. None)\<rparr>"

text \<open>An example: a process that has not made its client, and a CRM with two accounts.\<close>

definition acme :: sf_record where
  "acme = [(''Name'', PStr ''Acme Inc''), (''Industry'', PStr ''Technology'')]"

definition globex :: sf_record where
  "globex = [(''Name'', PStr ''Globex''), (''Phone'', PStr ''555-0123'')]"

definition crm0 :: crm where
  "crm0 =
     \<lparr>credentials = True, clients_made = 0, created = 2,
      accounts = [(''0010'', acme), (''0011'', globex)],
      contacts = [[(''Name'', PStr ''Ann''), (''AccountId'', PStr ''0010'')]],
      opportunities = []\<rparr>"

definition fresh :: "crm \<Rightarrow> (nat, crm) process" where
  "fresh w = \<lparr>sf_client = None, stdout = [], world = w\<rparr>"

text \<open>The same CRM seen from an environment without credentials.\<close>

definition no_credentials :: crm where
  "no_credentials = crm0\<lparr>credentials := False\<rparr>"

text \<open>A process whose client is the first one made.\<close>

definition connected :: "crm \<Rightarrow> (nat, crm) process" where
  "connected w = \<lparr>sf_client = Some 0, stdout = [], world = w\<rparr>"






section \<open>Properties of the adapter\<close>

subsection \<open>The client and the tools\<close>

lemma get_client_cached: "sf_client s = Some c \<Longrightarrow> get_client ext s = (Inr c, s)"
  by (simp add: get_client_def)

lemma get_client_constructs:
  "sf_client s = None \<Longrightarrow> SalesforceClient ext True (world s) = (Inr c, w') \<Longrightarrow>
   get_client ext s = (Inr c, s\<lparr>sf_client := Some c, world := w'\<rparr>)"
  by (simp add: get_client_def)

lemma get_client_fails:
  "sf_client s = None \<Longrightarrow> SalesforceClient ext True (world s) = (Inl e, w') \<Longrightarrow>
   get_client ext s = (Inl e, s\<lparr>world := w'\<rparr>)"
  by (simp add: get_client_def)

lemma get_client_unset:
  "sf_client s = None \<Longrightarrow>
   fst (get_client ext s) = fst (SalesforceClient ext True (world s)) \<and>
   world (snd (get_client ext s)) = snd (SalesforceClient ext True (world s))"
  by (simp add: get_client_def split: prod.splits sum.splits)

lemma get_client_Inr: "get_client ext s = (Inr c, s') \<Longrightarrow> sf_client s' = Some c"
  by (auto simp: get_client_def split: option.splits sum.splits prod.splits)

lemma get_client_Inl: "get_client ext s = (Inl e, s') \<Longrightarrow> sf_client s = None \<and> sf_client s' = None"
  by (auto simp: get_client_def split: option.splits sum.splits prod.splits)

lemma with_client_Inr: "get_client ext s = (Inr c, s') \<Longrightarrow> with_client ext body s = body c s'"
  by (simp add: with_client_def)

lemma with_client_Inl: "get_client ext s = (Inl e, s') \<Longrightarrow> with_client ext body s = (Inl e, s')"
  by (simp add: with_client_def)

lemma fst_call: "fst (call m s) = fst (m (world s))"
  by (simp add: call_def split: prod.splits)

lemma world_call: "world (snd (call m s)) = snd (m (world s))"
  by (simp add: call_def split: prod.splits)

lemma sf_client_call: "sf_client (snd (call m s)) = sf_client s"
  by (simp add: call_def split: prod.splits)

lemma stdout_call: "stdout (snd (call m s)) = stdout s"
  by (simp add: call_def split: prod.splits)

lemma fst_flag:
  "fst (case call m s of (Inl e, s'') \<Rightarrow> (Inl e, s'') | (Inr v, s'') \<Rightarrow> (Inr True, s'')) =
     (case fst (m (world s)) of Inl e \<Rightarrow> Inl e | Inr v \<Rightarrow> Inr True)"
  by (simp add: call_def split: prod.splits sum.splits)

text \<open>What each tool does once \<open>get_client\<close> has returned the client.\<close>

lemma get_accounts_run:
  "get_client ext s = (Inr c, s') \<Longrightarrow>
   get_accounts ext la fa s = call (cl_get_accounts ext c (default 10 la) (default None fa)) s'"
  by (simp add: get_accounts_def with_client_Inr)

lemma get_account_by_id_run:
  "get_client ext s = (Inr c, s') \<Longrightarrow>
   get_account_by_id ext i fa s = call (cl_get_account_by_id ext c i (default None fa)) s'"
  by (simp add: get_account_by_id_def with_client_Inr)

lemma search_accounts_run:
  "get_client ext s = (Inr c, s') \<Longrightarrow>
   search_accounts ext t la s = call (cl_search_accounts ext c t (default 10 la)) s'"
  by (simp add: search_accounts_def with_client_Inr)

lemma create_account_run:
  "get_client ext s = (Inr c, s') \<Longrightarrow>
   create_account ext d s = call (cl_create_account ext c d) s'"
  by (simp add: create_account_def with_client_Inr)

lemma update_account_run:
  "get_client ext s = (Inr c, s') \<Longrightarrow>
   update_account ext i d s =
     (case call (cl_update_account ext c i d) s' of
        (Inl e, s'') \<Rightarrow> (Inl e, s'')
      | (Inr v, s'') \<Rightarrow> (Inr True, s''))"
  by (simp add: update_account_def with_client_Inr)

lemma delete_account_run:
  "get_client ext s = (Inr c, s') \<Longrightarrow>
   delete_account ext i s =
     (case call (cl_delete_account ext c i) s' of
        (Inl e, s'') \<Rightarrow> (Inl e, s'')
      | (Inr v, s'') \<Rightarrow> (Inr True, s''))"
  by (simp add: delete_account_def with_client_Inr)

lemma get_account_opportunities_run:
  "get_client ext s = (Inr c, s') \<Longrightarrow>
   get_account_opportunities ext i la s =
     call (cl_get_account_opportunities ext c i (default 10 la)) s'"
  by (simp add: get_account_opportunities_def with_client_Inr)

lemma get_account_contacts_run:
  "get_client ext s = (Inr c, s') \<Longrightarrow>
   get_account_contacts ext i la s = call (cl_get_account_contacts ext c i (default 10 la)) s'"
  by (simp add: get_account_contacts_def with_client_Inr)

lemmas tool_run =
  get_accounts_run get_account_by_id_run search_accounts_run create_account_run
  update_account_run delete_account_run get_account_opportunities_run get_account_contacts_run

lemmas tool_defs =
  get_accounts_def get_account_by_id_def search_accounts_def create_account_def
  update_account_def delete_account_def get_account_opportunities_def get_account_contacts_def

lemma omitted_is_default:
  "get_accounts ext None fa s = get_accounts ext (Some 10) fa s"
  "search_accounts ext t None s = search_accounts ext t (Some 10) s"
  "get_account_opportunities ext i None s = get_account_opportunities ext i (Some 10) s"
  "get_account_contacts ext i None s = get_account_contacts ext i (Some 10) s"
  "get_accounts ext la None s = get_accounts ext la (Some None) s"
  "get_account_by_id ext i None s = get_account_by_id ext i (Some None) s"
  by (simp_all add: tool_defs)

subsection \<open>Sequences of tool invocations\<close>

lemma invoke_raises:
  "get_client ext s = (Inl e, s') \<Longrightarrow> invoke ext t s = (Inl e, s')"
  by (cases t) (simp_all add: tool_defs with_client_Inl returning_def)

lemma invoke_keeps_client:
  assumes "sf_client s = Some c"
  shows "sf_client (snd (invoke ext t s)) = Some c"
proof -
  have g: "get_client ext s = (Inr c, s)"
    using assms by (rule get_client_cached)
  show ?thesis
    by (cases t)
       (auto simp: tool_run [OF g] returning_def call_def assms split: prod.splits sum.splits)
qed

lemma invoke_ignores_constructor:
  assumes "sf_client s = Some c"
  shows "invoke (ext\<lparr>SalesforceClient := k\<rparr>) t s = invoke ext t s"
proof -
  have g: "get_client ext s = (Inr c, s)" "get_client (ext\<lparr>SalesforceClient := k\<rparr>) s = (Inr c, s)"
    using assms by (simp_all add: get_client_cached)
  show ?thesis
    by (cases t) (simp_all add: tool_run [OF g(1)] tool_run [OF g(2)])
qed

lemma invoke_all_Cons:
  "invoke_all ext (t # ts) s =
     (fst (invoke ext t s) # fst (invoke_all ext ts (snd (invoke ext t s))),
      snd (invoke_all ext ts (snd (invoke ext t s))))"
  by (simp add: case_prod_beta)

lemma invoke_all_keeps_client:
  "sf_client s = Some c \<Longrightarrow> sf_client (snd (invoke_all ext ts s)) = Some c"
proof (induction ts arbitrary: s)
  case Nil
  then show ?case by simp
next
  case (Cons t ts)
  have "sf_client (snd (invoke ext t s)) = Some c"
    using Cons.prems by (rule invoke_keeps_client)
  then have "sf_client (snd (invoke_all ext ts (snd (invoke ext t s)))) = Some c"
    by (rule Cons.IH)
  then show ?case
    by (simp only: invoke_all_Cons snd_conv)
qed

lemma invoke_all_ignores_constructor:
  "sf_client s = Some c \<Longrightarrow> invoke_all (ext\<lparr>SalesforceClient := k\<rparr>) ts s = invoke_all ext ts s"
proof (induction ts arbitrary: s)
  case Nil
  then show ?case by simp
next
  case (Cons t ts)
  have 1: "invoke (ext\<lparr>SalesforceClient := k\<rparr>) t s = invoke ext t s"
    using Cons.prems by (rule invoke_ignores_constructor)
  have "sf_client (snd (invoke ext t s)) = Some c"
    using Cons.prems by (rule invoke_keeps_client)
  then have "invoke_all (ext\<lparr>SalesforceClient := k\<rparr>) ts (snd (invoke ext t s)) =
             invoke_all ext ts (snd (invoke ext t s))"
    by (rule Cons.IH)
  with 1 show ?case
    by (simp only: invoke_all_Cons)
qed

subsection \<open>Start-up\<close>

lemma print_written:
  "line = [] \<or> encode_error ext line = None \<Longrightarrow>
   print ext line s = (Inr (), s\<lparr>stdout := stdout s @ [line]\<rparr>)"
  by (auto simp: print_def)


lemma and_then_Inr: "and_then (Inr v, s) k = k s"
  by (simp add: and_then_def)

lemma and_then_Inl: "and_then (Inl e, s) k = (Inl e, s)"
  by (simp add: and_then_def)

lemma banner_printed:
  assumes "encode_error ext starting_line = None"
    and "encode_error ext transport_line = None"
    and "encode_error ext tools_line = None"
    and "encode_error ext more_tools_line = None"
  shows "banner ext s =
           (Inr (), s\<lparr>stdout := stdout s @
              [starting_line, transport_line, tools_line, more_tools_line, []]\<rparr>)"
  by (simp add: banner_def print_written assms and_then_Inr)


subsection \<open>The example CRM\<close>

lemma crm_ext_sel:
  "SalesforceClient crm_ext = crm_SalesforceClient"
  "cl_get_accounts crm_ext = crm_get_accounts"
  "cl_get_account_by_id crm_ext = crm_get_account_by_id"
  "cl_search_accounts crm_ext = crm_search_accounts"
  "cl_create_account crm_ext = crm_create_account"
  "cl_update_account crm_ext = crm_update_account"
  "cl_delete_account crm_ext = crm_delete_account"
  "cl_get_account_opportunities crm_ext = crm_get_account_opportunities"
  "cl_get_account_contacts crm_ext = crm_get_account_contacts"
  "server_serve crm_ext = crm_serve"
  "encode_error crm_ext = (\<lambda>line. None)"
  by (simp_all add: crm_ext_def)

lemma fresh_sel: "sf_client (fresh w) = None" "stdout (fresh w) = []" "world (fresh w) = w"
  by (simp_all add: fresh_def)

lemma crm0_sel: "credentials crm0" "clients_made crm0 = 0" "created crm0 = 2"
  "accounts crm0 = [(''0010'', acme), (''0011'', globex)]"
  by (simp_all add: crm0_def)

lemma connected_sel: "sf_client (connected w) = Some 0" "stdout (connected w) = []"
  "world (connected w) = w"
  by (simp_all add: connected_def)

lemma get_client_connected: "get_client ext (connected w) = (Inr 0, connected w)"
  by (simp add: get_client_cached connected_sel)

lemma no_credentials_sel: "\<not> credentials no_credentials"
  by (simp add: no_credentials_def)

lemma constructor_no_credentials:
  "SalesforceClient crm_ext True no_credentials =
     (Inl (Exception ''Salesforce credentials are not configured''), no_credentials)"
  by (simp add: crm_ext_sel crm_SalesforceClient_def no_credentials_sel)

lemma constructor_crm0:
  "SalesforceClient crm_ext True crm0 = (Inr 0, crm0\<lparr>clients_made := 1\<rparr>)"
  by (simp add: crm_ext_sel crm_SalesforceClient_def crm0_sel)

lemma get_client_no_credentials:
  "get_client crm_ext (fresh no_credentials) =
     (Inl (Exception ''Salesforce credentials are not configured''), fresh no_credentials)"
  by (simp add: get_client_def fresh_def constructor_no_credentials)

lemma crm0_methods:
  "fst (crm_get_accounts 0 1 None crm0) = Inr [acme]"
  "fst (crm_get_accounts 0 10 None crm0) = Inr [acme, globex]"
  "fst (crm_get_account_by_id 0 ''0011'' None crm0) = Inr globex"
  "fst (crm_search_accounts 0 ''Inc'' 5 crm0) = Inr [acme]"
  "fst (crm_create_account 0 globex crm0) = Inr ''0012''"
  "fst (crm_update_account 0 ''0010'' [(''Phone'', PStr ''555-9999'')] crm0) = Inr PNone"
  "fst (crm_delete_account 0 ''0010'' crm0) = Inr PNone"
  "fst (crm_delete_account 0 ''0099'' crm0) = Inl not_found"
  "fst (crm_get_account_opportunities 0 ''0010'' 10 crm0) = Inr []"
  "fst (crm_get_account_contacts 0 ''0010'' 10 crm0) =
     Inr [[(''Name'', PStr ''Ann''), (''AccountId'', PStr ''0010'')]]"
  by code_simp+

lemma no_credentials_methods:
  "fst (crm_get_accounts c l f no_credentials) = Inl invalid_session"
  "fst (crm_get_account_by_id c i f no_credentials) = Inl invalid_session"
  "fst (crm_search_accounts c t l no_credentials) = Inl invalid_session"
  "fst (crm_create_account c d no_credentials) = Inl invalid_session"
  "fst (crm_update_account c i d no_credentials) = Inl invalid_session"
  "fst (crm_delete_account c i no_credentials) = Inl invalid_session"
  "fst (crm_get_account_opportunities c i l no_credentials) = Inl invalid_session"
  "fst (crm_get_account_contacts c i l no_credentials) = Inl invalid_session"
  by (simp_all add: crm_get_accounts_def crm_get_account_by_id_def crm_search_accounts_def
      crm_create_account_def crm_update_account_def crm_delete_account_def
      crm_get_account_opportunities_def crm_get_account_contacts_def authenticated_def
      no_credentials_sel)

subsection \<open>The modelled client\<close>

lemma matches_iff: "matches t r \<longleftrightarrow> (\<exists>k v. (k, PStr v) \<in> set r \<and> sublist t v)"
proof
  assume "matches t r"
  then obtain x where x: "x \<in> set r" "field_contains t x"
    by (auto simp: matches_def list_ex_iff)
  then show "\<exists>k v. (k, PStr v) \<in> set r \<and> sublist t v"
    by (cases "(t, x)" rule: field_contains.cases) auto
next
  assume "\<exists>k v. (k, PStr v) \<in> set r \<and> sublist t v"
  then obtain k v where "(k, PStr v) \<in> set r" "sublist t v"
    by blast
  then have "\<exists>x\<in>set r. field_contains t x"
    by (intro bexI [of _ "(k, PStr v)"]) simp_all
  then show "matches t r"
    by (simp add: matches_def list_ex_iff)
qed

lemma map_of_project:
  "map_of (project flds r) k =
     (case flds of None \<Rightarrow> map_of r k
      | Some fs \<Rightarrow> if k \<in> set fs then map_of r k else None)"
proof (cases flds)
  case None
  then show ?thesis by (simp add: project_def)
next
  case (Some fs)
  have "map_of (filter (\<lambda>(k, v). k \<in> set fs) r) k = (if k \<in> set fs then map_of r k else None)"
    by (induction r) auto
  with Some show ?thesis by (simp add: project_def)
qed

text \<open>\<open>get_client\<close> over the modelled constructor.\<close>

lemma crm_get_client_Inl:
  assumes "get_client crm_ext s = (Inl e, s')"
  shows "s' = s \<and> sf_client s = None \<and> \<not> credentials (world s)"
  using assms
  by (auto simp: get_client_def crm_ext_sel crm_SalesforceClient_def
      split: option.splits if_splits)

lemma crm_get_client_Inr:
  assumes "get_client crm_ext s = (Inr c, s')"
  shows "sf_client s' = Some c \<and> credentials (world s') = credentials (world s) \<and>
         accounts (world s') = accounts (world s)"
  using assms
  by (auto simp: get_client_def crm_ext_sel crm_SalesforceClient_def
      split: option.splits if_splits)

lemma crm_get_client_credentials:
  assumes "credentials (world s)"
  shows "\<exists>c s'. get_client crm_ext s = (Inr c, s')"
  using assms
  by (simp add: get_client_def crm_ext_sel crm_SalesforceClient_def split: option.splits)

text \<open>The modelled methods, called through the tools of a process that has its client.\<close>

lemma crm_search_accounts_run:
  assumes "sf_client s = Some c"
  shows "search_accounts crm_ext t la s =
           (if credentials (world s)
            then (Inr (take (nat (default 10 la))
                    (filter (matches t) (map snd (accounts (world s))))), s)
            else (Inl invalid_session, s))"
  by (simp add: search_accounts_run [OF get_client_cached [OF assms]] call_def crm_ext_sel
      crm_search_accounts_def authenticated_def)

lemma crm_get_account_by_id_run:
  assumes "sf_client s = Some c"
  shows "get_account_by_id crm_ext i fa s =
           (if credentials (world s)
            then (case map_of (accounts (world s)) i of
                    None \<Rightarrow> (Inl not_found, s)
                  | Some r \<Rightarrow> (Inr (project (default None fa) r), s))
            else (Inl invalid_session, s))"
  by (simp add: get_account_by_id_run [OF get_client_cached [OF assms]] call_def crm_ext_sel
      crm_get_account_by_id_def authenticated_def split: option.splits)

lemma crm_create_account_run:
  assumes "sf_client s = Some c"
  shows "create_account crm_ext d s =
           (if credentials (world s)
            then (Inr (new_id (created (world s))),
                  s\<lparr>world := (world s)\<lparr>created := Suc (created (world s)),
                       accounts := AList.update (new_id (created (world s))) d
                                     (accounts (world s))\<rparr>\<rparr>)
            else (Inl invalid_session, s))"
  by (simp add: create_account_run [OF get_client_cached [OF assms]] call_def crm_ext_sel
      crm_create_account_def authenticated_def Let_def)

lemma crm_delete_account_run:
  assumes "sf_client s = Some c"
  shows "delete_account crm_ext i s =
           (if credentials (world s)
            then (case map_of (accounts (world s)) i of
                    None \<Rightarrow> (Inl not_found, s)
                  | Some r \<Rightarrow>
                      (Inr True,
                       s\<lparr>world := (world s)\<lparr>accounts := AList.delete i (accounts (world s))\<rparr>\<rparr>))
            else (Inl invalid_session, s))"
  by (simp add: delete_account_run [OF get_client_cached [OF assms]] call_def crm_ext_sel
      crm_delete_account_def authenticated_def split: option.splits)

text \<open>A tool of a process without its client runs as in the state \<open>get_client\<close> leaves.\<close>

lemma tool_after_get_client:
  assumes "get_client ext s = (Inr c, s')"
  shows "search_accounts ext t la s = search_accounts ext t la s'"
    and "create_account ext d s = create_account ext d s'"
    and "delete_account ext i s = delete_account ext i s'"
    and "get_account_by_id ext i fa s = get_account_by_id ext i fa s'"
proof -
  have g: "get_client ext s' = (Inr c, s')"
    by (rule get_client_cached [OF get_client_Inr [OF assms]])
  show "search_accounts ext t la s = search_accounts ext t la s'"
    by (simp only: search_accounts_run [OF assms] search_accounts_run [OF g])
  show "create_account ext d s = create_account ext d s'"
    by (simp only: create_account_run [OF assms] create_account_run [OF g])
  show "delete_account ext i s = delete_account ext i s'"
    by (simp only: delete_account_run [OF assms] delete_account_run [OF g])
  show "get_account_by_id ext i fa s = get_account_by_id ext i fa s'"
    by (simp only: get_account_by_id_run [OF assms] get_account_by_id_run [OF g])
qed

lemma crm_search_accounts_result:
  assumes "fst (search_accounts crm_ext t la s) = Inr rs"
  shows "length rs \<le> nat (default 10 la) \<and> (\<forall>r\<in>set rs. matches t r)"
proof (cases "get_client crm_ext s")
  case (Pair x s')
  show ?thesis
  proof (cases x)
    case (Inl e)
    with Pair assms show ?thesis
      by (simp add: search_accounts_def with_client_Inl)
  next
    case (Inr c)
    with Pair have g: "get_client crm_ext s = (Inr c, s')"
      by simp
    then have c: "sf_client s' = Some c"
      by (rule get_client_Inr)
    have "fst (search_accounts crm_ext t la s') = Inr rs"
      using assms tool_after_get_client(1) [OF g] by simp
    then have "rs = take (nat (default 10 la)) (filter (matches t) (map snd (accounts (world s'))))"
      by (simp add: crm_search_accounts_run [OF c] split: if_splits)
    then show ?thesis
      by (auto dest: in_set_takeD)
  qed
qed

lemma crm_deleted_account_raises:
  "\<exists>e. fst (get_account_by_id crm_ext i fa (snd (delete_account crm_ext i s))) = Inl e"
proof (cases "get_client crm_ext s")
  case (Pair x s0)
  show ?thesis
  proof (cases x)
    case (Inl e)
    with Pair have g: "get_client crm_ext s = (Inl e, s0)"
      by simp
    then have "s0 = s"
      using crm_get_client_Inl by blast
    with g show ?thesis
      by (simp add: delete_account_def get_account_by_id_def with_client_Inl)
  next
    case (Inr c)
    with Pair have g: "get_client crm_ext s = (Inr c, s0)"
      by simp
    then have c: "sf_client s0 = Some c"
      by (rule get_client_Inr)
    have d: "delete_account crm_ext i s = delete_account crm_ext i s0"
      by (rule tool_after_get_client(3) [OF g])
    show ?thesis
    proof (cases "credentials (world s0)")
      case False
      then show ?thesis
        by (simp add: d crm_delete_account_run [OF c] crm_get_account_by_id_run [OF c])
    next
      case True
      show ?thesis
      proof (cases "map_of (accounts (world s0)) i")
        case None
        with True show ?thesis
          by (simp add: d crm_delete_account_run [OF c] crm_get_account_by_id_run [OF c])
      next
        case (Some r)
        let ?s1 = "s0\<lparr>world := (world s0)\<lparr>accounts := AList.delete i (accounts (world s0))\<rparr>\<rparr>"
        have c1: "sf_client ?s1 = Some c"
          using c by simp
        have "delete_account crm_ext i s = (Inr True, ?s1)"
          using True Some by (simp add: d crm_delete_account_run [OF c])
        then show ?thesis
          using True by (simp add: crm_get_account_by_id_run [OF c1] delete_conv')
      qed
    qed
  qed
qed

section \<open>The claims about the adapter\<close>

text \<open>
  C1. For each of \<open>get_accounts\<close>, \<open>get_account_by_id\<close>, \<open>search_accounts\<close>,
  \<open>create_account\<close>, \<open>get_account_opportunities\<close> and \<open>get_account_contacts\<close>: when
  \<open>get_client\<close> gives the client \<open>c\<close>, the result of the tool, a value or an
  exception, is exactly what the client's method of the same name gives on the tool's
  arguments, in the world as \<open>get_client\<close> left it. A limit left out is 10 and a field
  list left out is \<open>None\<close>.
\<close>

theorem tools_return_client_results:
  assumes "get_client ext s = (Inr c, s')"
  shows "fst (get_accounts ext la fa s) =
           fst (cl_get_accounts ext c (default 10 la) (default None fa) (world s')) \<and>
         fst (get_account_by_id ext i fa s) =
           fst (cl_get_account_by_id ext c i (default None fa) (world s')) \<and>
         fst (search_accounts ext t la s) =
           fst (cl_search_accounts ext c t (default 10 la) (world s')) \<and>
         fst (create_account ext d s) = fst (cl_create_account ext c d (world s')) \<and>
         fst (get_account_opportunities ext i la s) =
           fst (cl_get_account_opportunities ext c i (default 10 la) (world s')) \<and>
         fst (get_account_contacts ext i la s) =
           fst (cl_get_account_contacts ext c i (default 10 la) (world s'))"
  by (simp add: tool_run [OF assms] fst_call)

theorem tools_return_client_results_witness:
  "get_client crm_ext (connected crm0) = (Inr 0, connected crm0) \<and>
   fst (get_accounts crm_ext (Some 1) None (connected crm0)) = Inr [acme] \<and>
   fst (get_account_by_id crm_ext ''0011'' None (connected crm0)) = Inr globex \<and>
   fst (search_accounts crm_ext ''Inc'' (Some 5) (connected crm0)) = Inr [acme] \<and>
   fst (create_account crm_ext globex (connected crm0)) = Inr ''0012'' \<and>
   fst (get_account_opportunities crm_ext ''0010'' None (connected crm0)) = Inr [] \<and>
   fst (get_account_contacts crm_ext ''0010'' None (connected crm0)) =
     Inr [[(''Name'', PStr ''Ann''), (''AccountId'', PStr ''0010'')]]"
proof -
  have g: "get_client crm_ext (connected crm0) = (Inr 0, connected crm0)"
    by (rule get_client_connected)
  have 1: "fst (get_accounts crm_ext (Some 1) None (connected crm0)) = Inr [acme]"
    using tools_return_client_results [OF g, of "Some 1" None]
    by (simp add: crm_ext_sel connected_sel crm0_methods)
  have 2: "fst (get_account_by_id crm_ext ''0011'' None (connected crm0)) = Inr globex"
    using tools_return_client_results [OF g, of _ None "''0011''"]
    by (simp add: crm_ext_sel connected_sel crm0_methods)
  have 3: "fst (search_accounts crm_ext ''Inc'' (Some 5) (connected crm0)) = Inr [acme]"
    using tools_return_client_results [OF g, of "Some 5" _ _ "''Inc''"]
    by (simp add: crm_ext_sel connected_sel crm0_methods)
  have 4: "fst (create_account crm_ext globex (connected crm0)) = Inr ''0012''"
    using tools_return_client_results [OF g, of _ _ _ _ globex]
    by (simp add: crm_ext_sel connected_sel crm0_methods)
  have 5: "fst (get_account_opportunities crm_ext ''0010'' None (connected crm0)) = Inr [] \<and>
           fst (get_account_contacts crm_ext ''0010'' None (connected crm0)) =
             Inr [[(''Name'', PStr ''Ann''), (''AccountId'', PStr ''0010'')]]"
    using tools_return_client_results [OF g, of None _ "''0010''"]
    by (simp add: crm_ext_sel connected_sel crm0_methods)
  from g 1 2 3 4 5 show ?thesis
    by blast
qed

text \<open>
  C2. Errors of the client reach the caller unchanged. If \<open>get_client\<close> raises \<open>e\<close>,
  the invoked tool, whichever it is, raises \<open>e\<close>. If \<open>get_client\<close> gives the client and
  the method a tool calls raises \<open>e\<close>, each of the eight tools raises that same \<open>e\<close>:
  none catches it, retries or returns a value in its place.
\<close>

theorem client_errors_propagate:
  "(get_client ext s = (Inl e, s') \<longrightarrow> fst (invoke ext tc s) = Inl e) \<and>
   (get_client ext s = (Inr c, s') \<longrightarrow>
      (fst (cl_get_accounts ext c (default 10 la) (default None fa) (world s')) = Inl e \<longrightarrow>
         fst (get_accounts ext la fa s) = Inl e) \<and>
      (fst (cl_get_account_by_id ext c i (default None fa) (world s')) = Inl e \<longrightarrow>
         fst (get_account_by_id ext i fa s) = Inl e) \<and>
      (fst (cl_search_accounts ext c t (default 10 la) (world s')) = Inl e \<longrightarrow>
         fst (search_accounts ext t la s) = Inl e) \<and>
      (fst (cl_create_account ext c d (world s')) = Inl e \<longrightarrow>
         fst (create_account ext d s) = Inl e) \<and>
      (fst (cl_update_account ext c i d (world s')) = Inl e \<longrightarrow>
         fst (update_account ext i d s) = Inl e) \<and>
      (fst (cl_delete_account ext c i (world s')) = Inl e \<longrightarrow>
         fst (delete_account ext i s) = Inl e) \<and>
      (fst (cl_get_account_opportunities ext c i (default 10 la) (world s')) = Inl e \<longrightarrow>
         fst (get_account_opportunities ext i la s) = Inl e) \<and>
      (fst (cl_get_account_contacts ext c i (default 10 la) (world s')) = Inl e \<longrightarrow>
         fst (get_account_contacts ext i la s) = Inl e))"
proof (intro conjI impI)
  assume "get_client ext s = (Inl e, s')"
  then show "fst (invoke ext tc s) = Inl e"
    by (simp add: invoke_raises)
qed (simp_all add: tool_run fst_call fst_flag)

theorem client_errors_propagate_witness:
  "get_client crm_ext (fresh no_credentials) =
     (Inl (Exception ''Salesforce credentials are not configured''), fresh no_credentials) \<and>
   fst (invoke crm_ext (SearchAccounts ''Inc'' None) (fresh no_credentials)) =
     Inl (Exception ''Salesforce credentials are not configured'') \<and>
   get_client crm_ext (connected no_credentials) = (Inr 0, connected no_credentials) \<and>
   fst (cl_get_accounts crm_ext 0 10 None no_credentials) = Inl invalid_session \<and>
   fst (get_accounts crm_ext None None (connected no_credentials)) = Inl invalid_session \<and>
   fst (get_account_by_id crm_ext ''0010'' None (connected no_credentials)) = Inl invalid_session \<and>
   fst (search_accounts crm_ext ''Inc'' None (connected no_credentials)) = Inl invalid_session \<and>
   fst (create_account crm_ext globex (connected no_credentials)) = Inl invalid_session \<and>
   fst (update_account crm_ext ''0010'' globex (connected no_credentials)) = Inl invalid_session \<and>
   fst (delete_account crm_ext ''0010'' (connected no_credentials)) = Inl invalid_session \<and>
   fst (get_account_opportunities crm_ext ''0010'' None (connected no_credentials)) =
     Inl invalid_session \<and>
   fst (get_account_contacts crm_ext ''0010'' None (connected no_credentials)) =
     Inl invalid_session"
proof -
  have a: "get_client crm_ext (fresh no_credentials) =
     (Inl (Exception ''Salesforce credentials are not configured''), fresh no_credentials)"
    by (rule get_client_no_credentials)
  have b: "fst (invoke crm_ext (SearchAccounts ''Inc'' None) (fresh no_credentials)) =
     Inl (Exception ''Salesforce credentials are not configured'')"
    using client_errors_propagate [of crm_ext "fresh no_credentials" _ "fresh no_credentials"
        "SearchAccounts ''Inc'' None"] a
    by blast
  have g: "get_client crm_ext (connected no_credentials) = (Inr 0, connected no_credentials)"
    by (rule get_client_connected)
  have c: "fst (cl_get_accounts crm_ext 0 10 None no_credentials) = Inl invalid_session"
    by (simp add: crm_ext_sel no_credentials_methods)
  have d: "fst (get_accounts crm_ext None None (connected no_credentials)) = Inl invalid_session \<and>
   fst (get_account_by_id crm_ext ''0010'' None (connected no_credentials)) = Inl invalid_session \<and>
   fst (search_accounts crm_ext ''Inc'' None (connected no_credentials)) = Inl invalid_session \<and>
   fst (create_account crm_ext globex (connected no_credentials)) = Inl invalid_session \<and>
   fst (update_account crm_ext ''0010'' globex (connected no_credentials)) = Inl invalid_session \<and>
   fst (delete_account crm_ext ''0010'' (connected no_credentials)) = Inl invalid_session \<and>
   fst (get_account_opportunities crm_ext ''0010'' None (connected no_credentials)) =
     Inl invalid_session \<and>
   fst (get_account_contacts crm_ext ''0010'' None (connected no_credentials)) =
     Inl invalid_session"
    using client_errors_propagate [of crm_ext "connected no_credentials" invalid_session
        "connected no_credentials" _ 0 None None "''0010''" "''Inc''" globex] g
    by (simp add: crm_ext_sel connected_sel no_credentials_methods)
  from a b g c d show ?thesis
    by blast
qed

text \<open>
  C3. The client is a lazily created singleton. The first call of \<open>get_client\<close>, made
  while \<open>sf_client\<close> is \<open>None\<close>, constructs the client and stores it. Once
  \<open>get_client\<close> has returned the client \<open>c\<close>, then after any sequence \<open>ts\<close> of tool
  invocations \<open>get_client\<close> returns the same \<open>c\<close> and leaves the whole state, the world
  included, as it was, whatever the constructor is (\<open>ext'\<close> is arbitrary): it is not
  called. Nor do the tool invocations call it: they run the same with any other
  constructor \<open>k\<close>.
\<close>

theorem lazy_singleton:
  "(sf_client s = None \<and> SalesforceClient ext True (world s) = (Inr c, w') \<longrightarrow>
      get_client ext s = (Inr c, s\<lparr>sf_client := Some c, world := w'\<rparr>)) \<and>
   (get_client ext s = (Inr c, s') \<longrightarrow>
      get_client ext' (snd (invoke_all ext ts s')) = (Inr c, snd (invoke_all ext ts s')) \<and>
      invoke_all (ext\<lparr>SalesforceClient := k\<rparr>) ts s' = invoke_all ext ts s')"
proof (intro conjI impI)
  assume "sf_client s = None \<and> SalesforceClient ext True (world s) = (Inr c, w')"
  then show "get_client ext s = (Inr c, s\<lparr>sf_client := Some c, world := w'\<rparr>)"
    by (simp add: get_client_constructs)
next
  assume "get_client ext s = (Inr c, s')"
  then have made: "sf_client s' = Some c"
    by (rule get_client_Inr)
  then have "sf_client (snd (invoke_all ext ts s')) = Some c"
    by (rule invoke_all_keeps_client)
  then show "get_client ext' (snd (invoke_all ext ts s')) = (Inr c, snd (invoke_all ext ts s'))"
    by (rule get_client_cached)
  show "invoke_all (ext\<lparr>SalesforceClient := k\<rparr>) ts s' = invoke_all ext ts s'"
    using made by (rule invoke_all_ignores_constructor)
qed

theorem lazy_singleton_witness:
  "sf_client (fresh crm0) = None \<and>
   SalesforceClient crm_ext True (world (fresh crm0)) = (Inr 0, crm0\<lparr>clients_made := 1\<rparr>) \<and>
   get_client crm_ext (fresh crm0) =
     (Inr 0, (fresh crm0)\<lparr>sf_client := Some 0, world := crm0\<lparr>clients_made := 1\<rparr>\<rparr>) \<and>
   fst (get_client crm_ext
     (snd (invoke_all crm_ext [GetAccounts None None, DeleteAccount ''0010'']
        ((fresh crm0)\<lparr>sf_client := Some 0, world := crm0\<lparr>clients_made := 1\<rparr>\<rparr>)))) = Inr 0"
proof -
  have a: "sf_client (fresh crm0) = None"
    by (simp add: fresh_sel)
  have b: "SalesforceClient crm_ext True (world (fresh crm0)) = (Inr 0, crm0\<lparr>clients_made := 1\<rparr>)"
    by (simp add: fresh_sel crm_ext_sel crm_SalesforceClient_def crm0_sel)
  have c: "get_client crm_ext (fresh crm0) =
     (Inr 0, (fresh crm0)\<lparr>sf_client := Some 0, world := crm0\<lparr>clients_made := 1\<rparr>\<rparr>)"
    using lazy_singleton [of "fresh crm0" crm_ext 0 "crm0\<lparr>clients_made := 1\<rparr>"] a b by blast
  have d: "get_client crm_ext
     (snd (invoke_all crm_ext [GetAccounts None None, DeleteAccount ''0010'']
        ((fresh crm0)\<lparr>sf_client := Some 0, world := crm0\<lparr>clients_made := 1\<rparr>\<rparr>))) =
     (Inr 0, snd (invoke_all crm_ext [GetAccounts None None, DeleteAccount ''0010'']
        ((fresh crm0)\<lparr>sf_client := Some 0, world := crm0\<lparr>clients_made := 1\<rparr>\<rparr>)))"
    using lazy_singleton [of "fresh crm0" crm_ext 0 _ _ crm_ext] c by blast
  from a b c d show ?thesis
    by (simp only: fst_conv simp_thms)
qed

text \<open>
  C4. \<open>update_account\<close> returns \<open>True\<close> exactly when \<open>get_client\<close> gives a client and
  that client's \<open>update_account\<close> returns (some value \<open>v\<close>, which is dropped) instead of
  raising; it never returns \<open>False\<close>. The same holds of \<open>delete_account\<close>.
\<close>

theorem update_delete_return_true:
  "(fst (update_account ext i d s) = Inr True \<longleftrightarrow>
      (\<exists>c s' v. get_client ext s = (Inr c, s') \<and>
         fst (cl_update_account ext c i d (world s')) = Inr v)) \<and>
   fst (update_account ext i d s) \<noteq> Inr False \<and>
   (fst (delete_account ext i s) = Inr True \<longleftrightarrow>
      (\<exists>c s' v. get_client ext s = (Inr c, s') \<and>
         fst (cl_delete_account ext c i (world s')) = Inr v)) \<and>
   fst (delete_account ext i s) \<noteq> Inr False"
proof (cases "get_client ext s")
  case (Pair r s')
  show ?thesis
  proof (cases r)
    case (Inl e)
    with Pair have g: "get_client ext s = (Inl e, s')"
      by simp
    show ?thesis
      by (simp add: update_account_def delete_account_def with_client_Inl [OF g] g)
  next
    case (Inr c)
    with Pair have g: "get_client ext s = (Inr c, s')"
      by simp
    show ?thesis
      by (auto simp: tool_run [OF g] fst_flag g split: sum.splits)
  qed
qed

theorem update_delete_return_true_witness:
  "get_client crm_ext (connected crm0) = (Inr 0, connected crm0) \<and>
   fst (cl_update_account crm_ext 0 ''0010'' [(''Phone'', PStr ''555-9999'')]
     (world (connected crm0))) = Inr PNone \<and>
   fst (update_account crm_ext ''0010'' [(''Phone'', PStr ''555-9999'')] (connected crm0)) =
     Inr True \<and>
   fst (cl_delete_account crm_ext 0 ''0010'' (world (connected crm0))) = Inr PNone \<and>
   fst (delete_account crm_ext ''0010'' (connected crm0)) = Inr True \<and>
   fst (delete_account crm_ext ''0099'' (connected crm0)) \<noteq> Inr False"
proof -
  have g: "get_client crm_ext (connected crm0) = (Inr 0, connected crm0)"
    by (rule get_client_connected)
  have u: "fst (cl_update_account crm_ext 0 ''0010'' [(''Phone'', PStr ''555-9999'')]
     (world (connected crm0))) = Inr PNone"
    by (simp add: crm_ext_sel connected_sel crm0_methods)
  have d: "fst (cl_delete_account crm_ext 0 ''0010'' (world (connected crm0))) = Inr PNone"
    by (simp add: crm_ext_sel connected_sel crm0_methods)
  note t = update_delete_return_true [of crm_ext "''0010''" "[(''Phone'', PStr ''555-9999'')]"
      "connected crm0"]
  have 1: "fst (update_account crm_ext ''0010'' [(''Phone'', PStr ''555-9999'')] (connected crm0)) =
     Inr True"
    using t g u by blast
  have 2: "fst (delete_account crm_ext ''0010'' (connected crm0)) = Inr True"
    using t g d by blast
  have 3: "fst (delete_account crm_ext ''0099'' (connected crm0)) \<noteq> Inr False"
    using update_delete_return_true [of crm_ext "''0099''" "[]" "connected crm0"] by blast
  from g u d 1 2 3 show ?thesis
    by blast
qed




text \<open>
  What \<open>except Exception\<close> does not catch (\<open>KeyboardInterrupt\<close>, \<open>SystemExit\<close>) is not an
  initialization error, and leaves \<open>main\<close> before the server is started.
\<close>

lemma main_aborts_on_non_exception:
  assumes "sf_client s = None"
    and "SalesforceClient ext True (world s) = (Inl (NonException m), w')"
    and "encode_error ext starting_line = None"
    and "encode_error ext transport_line = None"
    and "encode_error ext tools_line = None"
    and "encode_error ext more_tools_line = None"
  shows "main ext s =
           (Inl (NonException m),
            s\<lparr>world := w',
               stdout := stdout s @
                 [starting_line, transport_line, tools_line, more_tools_line, []]\<rparr>)"
proof -
  let ?s1 = "s\<lparr>stdout := stdout s @
      [starting_line, transport_line, tools_line, more_tools_line, []]\<rparr>"
  have b: "banner ext s = (Inr (), ?s1)"
    using assms(3-6) by (simp add: banner_printed)
  have g: "get_client ext ?s1 = (Inl (NonException m), ?s1\<lparr>world := w'\<rparr>)"
    using assms(1,2) by (simp add: get_client_fails)
  show ?thesis
    by (simp add: main_def b g and_then_Inr and_then_Inl)
qed

text \<open>
  C9. A failed construction is not cached. If the constructor raises \<open>e\<close> while
  \<open>sf_client\<close> is \<open>None\<close>, then \<open>get_client\<close> raises \<open>e\<close> and \<open>sf_client\<close> is still
  \<open>None\<close>. The next call of \<open>get_client\<close>, in whatever world \<open>w2\<close> the environment
  has become, constructs again: it returns or raises what the constructor returns or
  raises there, and when the constructor now returns a client, that client is stored.
\<close>

theorem failed_construction_not_cached:
  assumes "sf_client s = None"
    and "SalesforceClient ext True (world s) = (Inl e, w')"
  shows "get_client ext s = (Inl e, s\<lparr>world := w'\<rparr>) \<and>
         sf_client (snd (get_client ext s)) = None \<and>
         fst (get_client ext ((snd (get_client ext s))\<lparr>world := w2\<rparr>)) =
           fst (SalesforceClient ext True w2) \<and>
         (SalesforceClient ext True w2 = (Inr c, w3) \<longrightarrow>
            get_client ext ((snd (get_client ext s))\<lparr>world := w2\<rparr>) =
              (Inr c, s\<lparr>sf_client := Some c, world := w3\<rparr>))"
proof -
  have 1: "get_client ext s = (Inl e, s\<lparr>world := w'\<rparr>)"
    using assms by (rule get_client_fails)
  have 2: "sf_client (s\<lparr>world := w2\<rparr>) = None"
    using assms(1) by simp
  have 3: "fst (get_client ext (s\<lparr>world := w2\<rparr>)) = fst (SalesforceClient ext True w2)"
    using get_client_unset [OF 2, of ext] by simp
  have 4: "SalesforceClient ext True w2 = (Inr c, w3) \<longrightarrow>
           get_client ext (s\<lparr>world := w2\<rparr>) = (Inr c, s\<lparr>sf_client := Some c, world := w3\<rparr>)"
    using get_client_constructs [OF 2, of ext c w3] by simp
  show ?thesis
    using 1 3 4 assms(1) by simp
qed

theorem failed_construction_not_cached_witness:
  "sf_client (fresh no_credentials) = None \<and>
   SalesforceClient crm_ext True (world (fresh no_credentials)) =
     (Inl (Exception ''Salesforce credentials are not configured''), no_credentials) \<and>
   SalesforceClient crm_ext True crm0 = (Inr 0, crm0\<lparr>clients_made := 1\<rparr>) \<and>
   sf_client (snd (get_client crm_ext (fresh no_credentials))) = None \<and>
   get_client crm_ext ((snd (get_client crm_ext (fresh no_credentials)))\<lparr>world := crm0\<rparr>) =
     (Inr 0, (fresh no_credentials)\<lparr>sf_client := Some 0, world := crm0\<lparr>clients_made := 1\<rparr>\<rparr>)"
proof -
  have a: "sf_client (fresh no_credentials) = None"
    by (simp add: fresh_sel)
  have b: "SalesforceClient crm_ext True (world (fresh no_credentials)) =
     (Inl (Exception ''Salesforce credentials are not configured''), no_credentials)"
    by (simp add: fresh_sel constructor_no_credentials)
  note t = failed_construction_not_cached [OF a b, of crm0 0 "crm0\<lparr>clients_made := 1\<rparr>"]
  from t a b constructor_crm0 show ?thesis
    by blast
qed

text \<open>
  C10. With the limit left out, \<open>get_accounts\<close>, \<open>search_accounts\<close>,
  \<open>get_account_opportunities\<close> and \<open>get_account_contacts\<close> call the client with the
  limit 10. With \<open>fields\<close> left out, \<open>get_accounts\<close> and \<open>get_account_by_id\<close> call the
  client with \<open>fields=None\<close>.
\<close>

theorem default_arguments:
  assumes "get_client ext s = (Inr c, s')"
  shows "get_accounts ext None fa s = call (cl_get_accounts ext c 10 (default None fa)) s' \<and>
         search_accounts ext t None s = call (cl_search_accounts ext c t 10) s' \<and>
         get_account_opportunities ext i None s =
           call (cl_get_account_opportunities ext c i 10) s' \<and>
         get_account_contacts ext i None s = call (cl_get_account_contacts ext c i 10) s' \<and>
         get_accounts ext la None s = call (cl_get_accounts ext c (default 10 la) None) s' \<and>
         get_account_by_id ext i None s = call (cl_get_account_by_id ext c i None) s'"
  by (simp add: tool_run [OF assms])

theorem default_arguments_witness:
  "get_client crm_ext (connected crm0) = (Inr 0, connected crm0) \<and>
   get_accounts crm_ext None None (connected crm0) =
     call (crm_get_accounts 0 10 None) (connected crm0) \<and>
   search_accounts crm_ext ''Inc'' None (connected crm0) =
     call (crm_search_accounts 0 ''Inc'' 10) (connected crm0) \<and>
   get_account_opportunities crm_ext ''0010'' None (connected crm0) =
     call (crm_get_account_opportunities 0 ''0010'' 10) (connected crm0) \<and>
   get_account_contacts crm_ext ''0010'' None (connected crm0) =
     call (crm_get_account_contacts 0 ''0010'' 10) (connected crm0) \<and>
   get_account_by_id crm_ext ''0010'' None (connected crm0) =
     call (crm_get_account_by_id 0 ''0010'' None) (connected crm0) \<and>
   fst (get_accounts crm_ext None None (connected crm0)) = Inr [acme, globex]"
proof -
  have g: "get_client crm_ext (connected crm0) = (Inr 0, connected crm0)"
    by (rule get_client_connected)
  have 1: "get_accounts crm_ext None None (connected crm0) =
       call (crm_get_accounts 0 10 None) (connected crm0) \<and>
     search_accounts crm_ext ''Inc'' None (connected crm0) =
       call (crm_search_accounts 0 ''Inc'' 10) (connected crm0) \<and>
     get_account_opportunities crm_ext ''0010'' None (connected crm0) =
       call (crm_get_account_opportunities 0 ''0010'' 10) (connected crm0) \<and>
     get_account_contacts crm_ext ''0010'' None (connected crm0) =
       call (crm_get_account_contacts 0 ''0010'' 10) (connected crm0) \<and>
     get_account_by_id crm_ext ''0010'' None (connected crm0) =
       call (crm_get_account_by_id 0 ''0010'' None) (connected crm0)"
    using default_arguments [OF g, of None "''Inc''" "''0010''" None]
    by (simp add: crm_ext_sel)
  have 2: "fst (get_accounts crm_ext None None (connected crm0)) = Inr [acme, globex]"
    using 1 by (simp add: fst_call connected_sel crm0_methods)
  from g 1 2 show ?thesis
    by blast
qed

section \<open>The claims about the client and the remote CRM\<close>

text \<open>
  The three claims below are about what the client and the CRM behind it answer. The
  tools only pass the calls on, so the claims are settled on the model of the client
  given above, through the tools of \<open>main.py\<close>.
\<close>

text \<open>
  C6. \<open>search_accounts("Inc", 5)\<close> returns at most 5 records, and each returned record
  has a field whose string value contains \<open>Inc\<close>. The call returns whenever the
  environment has credentials; without them it raises, and returns nothing.
\<close>

theorem search_inc_at_most_five:
  "(credentials (world s) \<longrightarrow> (\<exists>rs. fst (search_accounts crm_ext ''Inc'' (Some 5) s) = Inr rs)) \<and>
   (fst (search_accounts crm_ext ''Inc'' (Some 5) s) = Inr rs \<longrightarrow>
      length rs \<le> 5 \<and> (\<forall>r\<in>set rs. \<exists>k v. (k, PStr v) \<in> set r \<and> sublist ''Inc'' v))"
proof (intro conjI impI)
  assume cr: "credentials (world s)"
  then obtain c s' where g: "get_client crm_ext s = (Inr c, s')"
    using crm_get_client_credentials by blast
  then have "sf_client s' = Some c" "credentials (world s')"
    using crm_get_client_Inr [OF g] cr by simp_all
  then show "\<exists>rs. fst (search_accounts crm_ext ''Inc'' (Some 5) s) = Inr rs"
    by (simp add: tool_after_get_client(1) [OF g] crm_search_accounts_run)
next
  assume r: "fst (search_accounts crm_ext ''Inc'' (Some 5) s) = Inr rs"
  from crm_search_accounts_result [OF r] show "length rs \<le> 5"
    by simp
  from crm_search_accounts_result [OF r]
  show "\<forall>r\<in>set rs. \<exists>k v. (k, PStr v) \<in> set r \<and> sublist ''Inc'' v"
    by (simp add: matches_iff)
qed

theorem search_inc_at_most_five_witness:
  "credentials (world (fresh crm0)) \<and>
   fst (search_accounts crm_ext ''Inc'' (Some 5) (fresh crm0)) = Inr [acme] \<and>
   length [acme] \<le> 5 \<and>
   (\<exists>k v. (k, PStr v) \<in> set acme \<and> sublist ''Inc'' v)"
proof -
  have a: "credentials (world (fresh crm0))"
    by (simp add: fresh_sel crm0_sel)
  have b: "fst (search_accounts crm_ext ''Inc'' (Some 5) (fresh crm0)) = Inr [acme]"
    by code_simp
  from search_inc_at_most_five [of "fresh crm0" "[acme]"] a b show ?thesis
    by simp
qed

text \<open>
  C7. When \<open>create_account\<close> has returned the identifier \<open>i\<close> for the submitted fields
  \<open>d\<close>, \<open>get_account_by_id\<close> of \<open>i\<close>, called next, returns a record \<open>r\<close>, and every
  requested field has in \<open>r\<close> the submitted value: every field at all when no field
  list is given, and the fields of the list otherwise.
\<close>

theorem created_account_can_be_read:
  assumes "create_account crm_ext d s = (Inr i, s1)"
  shows "\<exists>r s2. get_account_by_id crm_ext i fa s1 = (Inr r, s2) \<and>
           (\<forall>k. (\<forall>fs. fa = Some (Some fs) \<longrightarrow> k \<in> set fs) \<longrightarrow> map_of r k = map_of d k)"
proof (cases "get_client crm_ext s")
  case (Pair x s0)
  show ?thesis
  proof (cases x)
    case (Inl e)
    with Pair assms show ?thesis
      by (simp add: create_account_def with_client_Inl)
  next
    case (Inr c)
    with Pair have g: "get_client crm_ext s = (Inr c, s0)"
      by simp
    then have c: "sf_client s0 = Some c"
      by (rule get_client_Inr)
    have made: "create_account crm_ext d s0 = (Inr i, s1)"
      using assms tool_after_get_client(2) [OF g] by simp
    then have cr: "credentials (world s0)"
      by (simp add: crm_create_account_run [OF c] split: if_splits)
    have s1: "s1 = s0\<lparr>world := (world s0)\<lparr>created := Suc (created (world s0)),
                 accounts := AList.update i d (accounts (world s0))\<rparr>\<rparr>"
      using made cr by (auto simp: crm_create_account_run [OF c])
    have c1: "sf_client s1 = Some c"
      using c s1 by simp
    have w1: "credentials (world s1)" "map_of (accounts (world s1)) i = Some d"
      using cr s1 by (simp_all add: update_conv')
    have read: "get_account_by_id crm_ext i fa s1 = (Inr (project (default None fa) d), s1)"
      by (simp add: crm_get_account_by_id_run [OF c1] w1)
    have "map_of (project (default None fa) d) k = map_of d k"
      if "\<forall>fs. fa = Some (Some fs) \<longrightarrow> k \<in> set fs" for k
      using that by (cases fa) (auto simp: map_of_project split: option.splits)
    with read show ?thesis
      by blast
  qed
qed

theorem created_account_can_be_read_witness:
  "create_account crm_ext globex (fresh crm0) =
     (Inr ''0012'', snd (create_account crm_ext globex (fresh crm0))) \<and>
   (\<exists>r s2. get_account_by_id crm_ext ''0012'' None (snd (create_account crm_ext globex (fresh crm0))) =
        (Inr r, s2) \<and>
      (\<forall>k. map_of r k = map_of globex k)) \<and>
   fst (get_account_by_id crm_ext ''0012'' None (snd (create_account crm_ext globex (fresh crm0)))) =
     Inr globex"
proof -
  have "fst (create_account crm_ext globex (fresh crm0)) = Inr ''0012''"
    by code_simp
  then have a: "create_account crm_ext globex (fresh crm0) =
     (Inr ''0012'', snd (create_account crm_ext globex (fresh crm0)))"
    by (simp add: prod_eq_iff)
  have b: "fst (get_account_by_id crm_ext ''0012'' None
     (snd (create_account crm_ext globex (fresh crm0)))) = Inr globex"
    by code_simp
  from created_account_can_be_read [OF a, of None] a b show ?thesis
    by simp
qed

text \<open>
  C8. For every identifier \<open>i\<close>, \<open>get_account_by_id\<close> of \<open>i\<close> called next after
  \<open>delete_account\<close> of \<open>i\<close> raises or returns the empty record. (In the model it
  raises, whether or not the deletion itself did.)
\<close>

theorem deleted_account_cannot_be_read:
  "(\<exists>e. fst (get_account_by_id crm_ext i fa (snd (delete_account crm_ext i s))) = Inl e) \<or>
   fst (get_account_by_id crm_ext i fa (snd (delete_account crm_ext i s))) = Inr []"
  using crm_deleted_account_raises by blast

theorem deleted_account_cannot_be_read_witness:
  "fst (get_account_by_id crm_ext ''0010'' None (connected crm0)) = Inr acme \<and>
   fst (delete_account crm_ext ''0010'' (connected crm0)) = Inr True \<and>
   fst (get_account_by_id crm_ext ''0010'' None
     (snd (delete_account crm_ext ''0010'' (connected crm0)))) = Inl not_found"
proof -
  have a: "fst (get_account_by_id crm_ext ''0010'' None (connected crm0)) = Inr acme"
    by code_simp
  have b: "fst (delete_account crm_ext ''0010'' (connected crm0)) = Inr True"
    by code_simp
  have c: "fst (get_account_by_id crm_ext ''0010'' None
     (snd (delete_account crm_ext ''0010'' (connected crm0)))) = Inl not_found"
    by code_simp
  from deleted_account_cannot_be_read [of "''0010''" None "connected crm0"] a b c show ?thesis
    by blast
qed

end
